theory Spec2Isabelle
  imports Main "HOL-Library.Word" "HOL-Library.AList" "HOL-Library.Sublist"
begin

section \<open>Conventions of the embedding\<close>

text \<open>
  The development follows the Go sources of the repository: package \<^verbatim>\<open>albumart\<close> (the
  half-block renderer and its cache), package \<^verbatim>\<open>spotify\<close> (token handling and the two
  track endpoints) and the session code of \<^verbatim>\<open>main\<close> (\<^verbatim>\<open>fetchTrack\<close>, \<^verbatim>\<open>Update\<close>,
  \<^verbatim>\<open>renderSpotifyWidget\<close>).

  \<^item> A Go \<^verbatim>\<open>string\<close> is a sequence of bytes: \<^typ>\<open>string\<close>, with \<^const>\<open>length\<close> for
    \<^verbatim>\<open>len\<close> and \<^const>\<open>take\<close> for \<^verbatim>\<open>s[:n]\<close>.
  \<^item> Go's \<^verbatim>\<open>int\<close>, \<^verbatim>\<open>time.Time\<close> and \<^verbatim>\<open>time.Duration\<close> are read as mathematical integers
    (\<^typ>\<open>int\<close>; instants and durations in nanoseconds). The only arithmetic the sources
    perform on them is \<^verbatim>\<open>height * 2\<close>, the loop increments, \<^verbatim>\<open>(ExpiresIn - 60) * time.Second\<close>
    and the addition and subtraction of instants; the model agrees with the machine
    operations as long as these stay inside the 64-bit range.
  \<^item> A Go \<^verbatim>\<open>error\<close> is its message; \<^verbatim>\<open>nil\<close> is \<^const>\<open>None\<close>.
  \<^item> Everything outside the repository is an oracle of the record \<open>world\<close>: the clock,
    the network, the image decoder, the Catmull-Rom scaler, the JSON decoder, Base64 and
    the form encoder. The theorems hold for every behaviour of these oracles.
  \<^item> The mutexes and the log calls are left out: every function is modelled as one atomic
    step of a sequential program.
\<close>

type_synonym error = string

subsection \<open>Formatting\<close>

definition ESC :: char where
  "ESC = CHR 0x1B"

definition NL :: char where
  "NL = CHR 0x0A"

text \<open>The reset sequence \<^verbatim>\<open>"\x1b[0m"\<close> and the UTF-8 encoding of U+2580.\<close>

definition reset :: string where
  "reset = ESC # ''[0m''"

definition half_block :: string where
  "half_block = [CHR 0xE2, CHR 0x96, CHR 0x80]"

definition digit :: "nat \<Rightarrow> char" where
  "digit d = ''0123456789'' ! d"

text \<open>The verb \<^verbatim>\<open>%d\<close> of \<^verbatim>\<open>fmt\<close> on an unsigned and on a signed argument.\<close>

function fmt_nat :: "nat \<Rightarrow> string" where
  "fmt_nat n = (if n < 10 then [digit n] else fmt_nat (n div 10) @ [digit (n mod 10)])"
  by pat_completeness auto
termination
  by (relation "measure id") auto

declare fmt_nat.simps [simp del]

definition fmt_d :: "int \<Rightarrow> string" where
  "fmt_d i = (if i < 0 then CHR ''-'' # fmt_nat (nat (- i)) else fmt_nat (nat i))"

text \<open>
  \<^verbatim>\<open>fmt.Sprintf("\x1b[38;2;%d;%d;%dm\x1b[48;2;%d;%d;%dm<U+2580>", topR, topG, topB, botR, botG, botB)\<close>
\<close>

definition sprintf_cell :: "nat \<Rightarrow> nat \<Rightarrow> nat \<Rightarrow> nat \<Rightarrow> nat \<Rightarrow> nat \<Rightarrow> string" where
  "sprintf_cell topR topG topB botR botG botB =
     ESC # ''[38;2;'' @ fmt_nat topR @ '';'' @ fmt_nat topG @ '';'' @ fmt_nat topB @ ''m'' @
     ESC # ''[48;2;'' @ fmt_nat botR @ '';'' @ fmt_nat botG @ '';'' @ fmt_nat botB @ ''m'' @
     half_block"

text \<open>
  The last step of both renderers:
  \<^verbatim>\<open>if len(result) > 0 && result[len(result)-1] == '\n' { result = result[:len(result)-1] }\<close>
\<close>

definition trim_newline :: "string \<Rightarrow> string" where
  "trim_newline result =
     (if length result > 0 \<and> result ! (length result - 1) = NL
      then take (length result - 1) result else result)"

subsection \<open>Lines of a frame\<close>


fun join_lines :: "string list \<Rightarrow> string" where
  "join_lines [] = []"
| "join_lines [l] = l"
| "join_lines (l # ls) = l @ NL # join_lines ls"


section \<open>Shared types and the world\<close>

subsection \<open>Images, HTTP messages and the JSON documents of the Spotify API\<close>

text \<open>
  A pixel is what \<^verbatim>\<open>color.Color.RGBA()\<close> returns: four samples of 16 bits, each handed
  over in a \<^verbatim>\<open>uint32\<close>. An image is its \<^verbatim>\<open>At\<close> method.
\<close>

record pixel =
  red :: "16 word"
  green :: "16 word"
  blue :: "16 word"
  alpha :: "16 word"

type_synonym image = "int \<Rightarrow> int \<Rightarrow> pixel"

record response =
  StatusCode :: int
  Body :: string

record request =
  Method :: string
  URL :: string
  Header :: "(string \<times> string) list"
  Payload :: string

record tokenResponse =
  AccessToken :: string
  TokenType :: string
  ExpiresIn :: int

record trackItem =
  item_name :: string
  album_name :: string
  album_images :: "string list"
  artists :: "string list"

record currentlyPlayingResponse =
  cp_IsPlaying :: bool
  cp_Item :: "trackItem option"

record historyItem =
  hi_Track :: trackItem

record recentlyPlayedResponse =
  Items :: "historyItem list"

text \<open>
  The world: \<open>clock w n\<close> is the \<open>n\<close>-th reading of \<^verbatim>\<open>time.Now()\<close>, \<open>network w n req\<close> the
  outcome of the \<open>n\<close>-th HTTP exchange when it carries \<open>req\<close>; \<open>ticks\<close> and \<open>sent\<close> record
  what has been consumed so far. The remaining fields are the library functions.
\<close>

record world =
  clock :: "nat \<Rightarrow> int"
  ticks :: nat
  network :: "nat \<Rightarrow> request \<Rightarrow> error + response"
  sent :: "request list"
  imageDecode :: "string \<Rightarrow> error + image"
  catmullRomScale :: "image \<Rightarrow> int \<Rightarrow> int \<Rightarrow> image"
  jsonToken :: "string \<Rightarrow> error + tokenResponse"
  jsonCurrentlyPlaying :: "string \<Rightarrow> error + currentlyPlayingResponse"
  jsonRecentlyPlayed :: "string \<Rightarrow> error + recentlyPlayedResponse"
  base64 :: "string \<Rightarrow> string"
  formEncode :: "(string \<times> string) list \<Rightarrow> string"

definition timeNow :: "world \<Rightarrow> int \<times> world" where
  "timeNow w = (clock w (ticks w), w\<lparr>ticks := Suc (ticks w)\<rparr>)"

definition httpDo :: "world \<Rightarrow> request \<Rightarrow> (error + response) \<times> world" where
  "httpDo w req = (network w (length (sent w)) req, w\<lparr>sent := sent w @ [req]\<rparr>)"

definition httpGet :: "world \<Rightarrow> string \<Rightarrow> (error + response) \<times> world" where
  "httpGet w url = httpDo w \<lparr>Method = ''GET'', URL = url, Header = [], Payload = []\<rparr>"

definition second :: int where
  "second = 1000000000"

definition minute :: int where
  "minute = 60 * second"

text \<open>The zero value of \<^verbatim>\<open>time.Time\<close>: 1 January of year 1, counted from the Unix epoch.\<close>

definition zeroTime :: int where
  "zeroTime = - 62135596800 * second"

section \<open>Package albumart\<close>

subsection \<open>The cache\<close>

record cacheEntry =
  rendered :: string
  timestamp :: int

text \<open>
  The Go map \<^verbatim>\<open>cache\<close> is an association list with the operations of a map; the order
  of the list is the order in which \<^verbatim>\<open>range\<close> visits the entries, which Go leaves open.
\<close>

type_synonym cache = "(string \<times> cacheEntry) list"

definition cacheTTL :: int where
  "cacheTTL = 5 * minute"

definition cacheSize :: int where
  "cacheSize = 10"

text \<open>
  The scan for the oldest entry, started from \<^verbatim>\<open>var oldestKey string\<close> and
  \<^verbatim>\<open>var oldestTime time.Time\<close>:
  \<^verbatim>\<open>for k, v := range cache { if oldestKey == "" || v.timestamp.Before(oldestTime) { ... } }\<close>
\<close>

fun oldest_scan :: "cache \<Rightarrow> string \<times> int \<Rightarrow> string \<times> int" where
  "oldest_scan [] acc = acc"
| "oldest_scan ((k, v) # kvs) (oldestKey, oldestTime) =
     oldest_scan kvs
       (if oldestKey = [] \<or> timestamp v < oldestTime then (k, timestamp v)
        else (oldestKey, oldestTime))"

definition evict_if_full :: "cache \<Rightarrow> cache" where
  "evict_if_full c =
     (if int (length c) \<ge> cacheSize
      then AList.delete (fst (oldest_scan c ([], zeroTime))) c
      else c)"

text \<open>
  The critical section of \<^verbatim>\<open>RenderFromURL\<close> between \<^verbatim>\<open>cacheMu.Lock()\<close> and
  \<^verbatim>\<open>cacheMu.Unlock()\<close>: evict when full, then \<^verbatim>\<open>cache[url] = cacheEntry{...}\<close>.
\<close>

definition cacheStore :: "string \<Rightarrow> string \<Rightarrow> int \<Rightarrow> cache \<Rightarrow> cache" where
  "cacheStore url r now c = AList.update url \<lparr>rendered = r, timestamp = now\<rparr> (evict_if_full c)"


subsection \<open>The renderers\<close>

definition gray :: string where
  "gray = ESC # ''[38;2;60;60;60m'' @ ESC # ''[48;2;40;40;40m'' @ half_block"

function renderPlaceholder_x :: "int \<Rightarrow> int \<Rightarrow> string \<Rightarrow> string" where
  "renderPlaceholder_x width x sb =
     (if x < width then renderPlaceholder_x width (x + 1) (sb @ gray) else sb)"
  by pat_completeness auto
termination
  by (relation "measure (\<lambda>(width, x, sb). nat (width - x))") auto

declare renderPlaceholder_x.simps [simp del]

function renderPlaceholder_y :: "int \<Rightarrow> int \<Rightarrow> int \<Rightarrow> string \<Rightarrow> string" where
  "renderPlaceholder_y width height y sb =
     (if y < height
      then renderPlaceholder_y width height (y + 1)
             (renderPlaceholder_x width 0 sb @ reset @ [NL])
      else sb)"
  by pat_completeness auto
termination
  by (relation "measure (\<lambda>(width, height, y, sb). nat (height - y))") auto

declare renderPlaceholder_y.simps [simp del]

definition renderPlaceholder :: "int \<Rightarrow> int \<Rightarrow> string" where
  "renderPlaceholder width height = trim_newline (renderPlaceholder_y width height 0 [])"

text \<open>The shift \<^verbatim>\<open>topR>>8\<close> on the \<^verbatim>\<open>uint32\<close> that holds a 16-bit sample.\<close>

definition shr8 :: "16 word \<Rightarrow> nat" where
  "shr8 c = unat (drop_bit 8 (ucast c :: 32 word))"

function renderImage_x :: "image \<Rightarrow> int \<Rightarrow> int \<Rightarrow> int \<Rightarrow> int \<Rightarrow> string \<Rightarrow> string" where
  "renderImage_x resized width pixelHeight y x sb =
     (if x < width
      then
        (let topPx = resized x y;
             topR = shr8 (red topPx); topG = shr8 (green topPx); topB = shr8 (blue topPx);
             (botR, botG, botB) =
               (if y + 1 < pixelHeight
                then (let botPx = resized x (y + 1)
                      in (shr8 (red botPx), shr8 (green botPx), shr8 (blue botPx)))
                else (topR, topG, topB))
         in renderImage_x resized width pixelHeight y (x + 1)
              (sb @ sprintf_cell topR topG topB botR botG botB))
      else sb)"
  by pat_completeness auto
termination
  by (relation "measure (\<lambda>(resized, width, pixelHeight, y, x, sb). nat (width - x))") auto

declare renderImage_x.simps [simp del]

function renderImage_y :: "image \<Rightarrow> int \<Rightarrow> int \<Rightarrow> int \<Rightarrow> string \<Rightarrow> string" where
  "renderImage_y resized width pixelHeight y sb =
     (if y < pixelHeight
      then renderImage_y resized width pixelHeight (y + 2)
             (renderImage_x resized width pixelHeight y 0 sb @ reset @ [NL])
      else sb)"
  by pat_completeness auto
termination
  by (relation "measure (\<lambda>(resized, width, pixelHeight, y, sb). nat (pixelHeight - y))") auto

declare renderImage_y.simps [simp del]

definition resizeImage :: "world \<Rightarrow> image \<Rightarrow> int \<Rightarrow> int \<Rightarrow> image" where
  "resizeImage w img width height = catmullRomScale w img width height"

definition renderImage :: "world \<Rightarrow> image \<Rightarrow> int \<Rightarrow> int \<Rightarrow> string" where
  "renderImage w img width height =
     (let pixelHeight = height * 2;
          resized = resizeImage w img width pixelHeight
      in trim_newline (renderImage_y resized width pixelHeight 0 []))"

subsection \<open>RenderFromURL\<close>

text \<open>
  The part of \<^verbatim>\<open>RenderFromURL\<close> after a cache miss: download, decode, render, store.
  The status code of the response is not looked at.
\<close>

definition RenderFromURL_miss ::
  "string \<Rightarrow> int \<Rightarrow> int \<Rightarrow> cache \<times> world \<Rightarrow> (string \<times> error option) \<times> cache \<times> world" where
  "RenderFromURL_miss url width height cw =
     (case cw of (c, w) \<Rightarrow>
       (case httpGet w url of
          (Inl err, w1) \<Rightarrow> ((renderPlaceholder width height, Some err), c, w1)
        | (Inr resp, w1) \<Rightarrow>
            (case imageDecode w1 (Body resp) of
               Inl err \<Rightarrow> ((renderPlaceholder width height, Some err), c, w1)
             | Inr img \<Rightarrow>
                 (let r = renderImage w1 img width height;
                      (now, w2) = timeNow w1
                  in ((r, None), cacheStore url r now c, w2)))))"

definition RenderFromURL ::
  "string \<Rightarrow> int \<Rightarrow> int \<Rightarrow> cache \<times> world \<Rightarrow> (string \<times> error option) \<times> cache \<times> world" where
  "RenderFromURL url width height cw =
     (case cw of (c, w) \<Rightarrow>
       if url = [] then ((renderPlaceholder width height, None), c, w)
       else
         (case map_of c url of
            None \<Rightarrow> RenderFromURL_miss url width height (c, w)
          | Some entry \<Rightarrow>
              (let (now, w1) = timeNow w
               in if now - timestamp entry < cacheTTL
                  then ((rendered entry, None), c, w1)
                  else RenderFromURL_miss url width height (c, w1))))"

section \<open>Package spotify\<close>

record Client =
  clientID :: string
  clientSecret :: string
  refreshToken :: string
  accessToken :: string
  tokenExpiry :: int

record Track =
  Name :: string
  Artist :: string
  Album :: string
  ArtworkURL :: string
  IsPlaying :: bool

definition NewClient :: "string \<Rightarrow> string \<Rightarrow> string \<Rightarrow> Client" where
  "NewClient cid secret rt =
     \<lparr>clientID = cid, clientSecret = secret, refreshToken = rt,
      accessToken = [], tokenExpiry = zeroTime\<rparr>"

text \<open>
  \<^verbatim>\<open>http.NewRequest\<close> fails on a malformed method or URL only; the callers below pass
  constant, well-formed ones, and keep their error branch all the same.
\<close>

definition NewRequest :: "string \<Rightarrow> string \<Rightarrow> string \<Rightarrow> error + request" where
  "NewRequest method url body = Inr \<lparr>Method = method, URL = url, Header = [], Payload = body\<rparr>"

definition setHeader :: "string \<Rightarrow> string \<Rightarrow> request \<Rightarrow> request" where
  "setHeader k v req = req\<lparr>Header := AList.update k v (Header req)\<rparr>"

text \<open>The request of \<^verbatim>\<open>refreshAccessToken\<close>: form body, Basic authorisation, content type.\<close>

definition tokenRequest :: "Client \<Rightarrow> world \<Rightarrow> error + request" where
  "tokenRequest c w =
     (let data = [(''grant_type'', ''refresh_token''), (''refresh_token'', refreshToken c)]
      in case NewRequest ''POST'' ''https://accounts.spotify.com/api/token'' (formEncode w data) of
           Inl e \<Rightarrow> Inl e
         | Inr req \<Rightarrow>
             (let auth = base64 w (clientID c @ '':'' @ clientSecret c)
              in Inr (setHeader ''Content-Type'' ''application/x-www-form-urlencoded''
                       (setHeader ''Authorization'' (''Basic '' @ auth) req))))"

definition refreshAccessToken :: "Client \<times> world \<Rightarrow> error option \<times> Client \<times> world" where
  "refreshAccessToken cw =
     (case cw of (c, w) \<Rightarrow>
       (case tokenRequest c w of
          Inl e \<Rightarrow> (Some e, c, w)
        | Inr req \<Rightarrow>
            (case httpDo w req of
               (Inl e, w1) \<Rightarrow> (Some e, c, w1)
             | (Inr resp, w1) \<Rightarrow>
                 if StatusCode resp \<noteq> 200
                 then (Some (''failed to refresh token: '' @ fmt_d (StatusCode resp)), c, w1)
                 else
                   (case jsonToken w1 (Body resp) of
                      Inl e \<Rightarrow> (Some e, c, w1)
                    | Inr tokenResp \<Rightarrow>
                        (let (now, w2) = timeNow w1
                         in (None,
                             c\<lparr>accessToken := AccessToken tokenResp,
                               tokenExpiry := now + (ExpiresIn tokenResp - 60) * second\<rparr>,
                             w2))))))"

text \<open>
  \<^verbatim>\<open>valid := c.accessToken != "" && time.Now().Before(c.tokenExpiry)\<close>: the clock is read
  only when a token is present.
\<close>

definition ensureValidToken :: "Client \<times> world \<Rightarrow> error option \<times> Client \<times> world" where
  "ensureValidToken cw =
     (case cw of (c, w) \<Rightarrow>
       (let (valid, w1) =
              (if accessToken c \<noteq> []
               then (let (now, w1) = timeNow w in (now < tokenExpiry c, w1))
               else (False, w))
        in if valid then (None, c, w1) else refreshAccessToken (c, w1)))"

text \<open>The request of the two track endpoints: a GET that carries the bearer.\<close>

definition apiRequest :: "string \<Rightarrow> Client \<Rightarrow> error + request" where
  "apiRequest url c =
     (case NewRequest ''GET'' url [] of
        Inl e \<Rightarrow> Inl e
      | Inr req \<Rightarrow> Inr (setHeader ''Authorization'' (''Bearer '' @ accessToken c) req))"

text \<open>The field mapping shared by both endpoints (lines 427 to 439 and 496 to 508).\<close>

definition makeTrack :: "trackItem \<Rightarrow> bool \<Rightarrow> Track" where
  "makeTrack item playing =
     (let t0 = \<lparr>Name = item_name item, Artist = [], Album = album_name item,
                ArtworkURL = [], IsPlaying = playing\<rparr>;
          t1 = (if length (artists item) > 0 then t0\<lparr>Artist := artists item ! 0\<rparr> else t0);
          t2 = (if length (album_images item) > 0
                then t1\<lparr>ArtworkURL := album_images item ! 0\<rparr> else t1)
      in t2)"

definition currentlyPlayingURL :: string where
  "currentlyPlayingURL = ''https://api.spotify.com/v1/me/player/currently-playing''"

definition recentlyPlayedURL :: string where
  "recentlyPlayedURL = ''https://api.spotify.com/v1/me/player/recently-played?limit=1''"

definition GetCurrentlyPlaying ::
  "Client \<times> world \<Rightarrow> (Track option \<times> error option) \<times> Client \<times> world" where
  "GetCurrentlyPlaying cw =
     (case ensureValidToken cw of
        (Some e, c1, w1) \<Rightarrow> ((None, Some (''failed to get valid token: '' @ e)), c1, w1)
      | (None, c1, w1) \<Rightarrow>
          (case apiRequest currentlyPlayingURL c1 of
             Inl e \<Rightarrow> ((None, Some e), c1, w1)
           | Inr req \<Rightarrow>
               (case httpDo w1 req of
                  (Inl e, w2) \<Rightarrow> ((None, Some e), c1, w2)
                | (Inr resp, w2) \<Rightarrow>
                    if StatusCode resp = 204 then ((None, None), c1, w2)
                    else if StatusCode resp \<noteq> 200
                    then ((None, Some (''spotify API error: '' @ fmt_d (StatusCode resp))), c1, w2)
                    else
                      (case jsonCurrentlyPlaying w2 (Body resp) of
                         Inl e \<Rightarrow> ((None, Some e), c1, w2)
                       | Inr data \<Rightarrow>
                           (case cp_Item data of
                              None \<Rightarrow> ((None, None), c1, w2)
                            | Some item \<Rightarrow>
                                ((Some (makeTrack item (cp_IsPlaying data)), None), c1, w2))))))"

definition GetRecentlyPlayed ::
  "Client \<times> world \<Rightarrow> (Track option \<times> error option) \<times> Client \<times> world" where
  "GetRecentlyPlayed cw =
     (case ensureValidToken cw of
        (Some e, c1, w1) \<Rightarrow> ((None, Some (''failed to get valid token: '' @ e)), c1, w1)
      | (None, c1, w1) \<Rightarrow>
          (case apiRequest recentlyPlayedURL c1 of
             Inl e \<Rightarrow> ((None, Some e), c1, w1)
           | Inr req \<Rightarrow>
               (case httpDo w1 req of
                  (Inl e, w2) \<Rightarrow> ((None, Some e), c1, w2)
                | (Inr resp, w2) \<Rightarrow>
                    if StatusCode resp \<noteq> 200
                    then ((None, Some (''spotify API error: '' @ fmt_d (StatusCode resp))), c1, w2)
                    else
                      (case jsonRecentlyPlayed w2 (Body resp) of
                         Inl e \<Rightarrow> ((None, Some e), c1, w2)
                       | Inr data \<Rightarrow>
                           if length (Items data) = 0 then ((None, None), c1, w2)
                           else ((Some (makeTrack (hi_Track (Items data ! 0)) False), None), c1, w2)))))"

section \<open>The session (package main)\<close>

record trackMsg =
  msg_track :: "Track option"
  msg_err :: "error option"

record model =
  m_width :: int
  m_height :: int
  currentTrack :: "Track option"

datatype msg = WindowSizeMsg int int | TrackMsg trackMsg | TickMsg int | KeyMsg string

datatype cmd = NoCmd | FetchTrack | Quit

text \<open>The global \<^verbatim>\<open>spotifyClient\<close> is \<^const>\<open>None\<close> when the credentials are missing.\<close>

definition fetchTrack :: "Client option \<times> world \<Rightarrow> trackMsg \<times> Client option \<times> world" where
  "fetchTrack sw =
     (case sw of (spotifyClient, w) \<Rightarrow>
       (case spotifyClient of
          None \<Rightarrow> (\<lparr>msg_track = None, msg_err = None\<rparr>, None, w)
        | Some c \<Rightarrow>
            (case GetCurrentlyPlaying (c, w) of
               ((t, e), c1, w1) \<Rightarrow>
                 if e \<noteq> None then (\<lparr>msg_track = None, msg_err = e\<rparr>, Some c1, w1)
                 else if t = None
                 then
                   (case GetRecentlyPlayed (c1, w1) of
                      ((t2, e2), c2, w2) \<Rightarrow>
                        (\<lparr>msg_track =
                            (case t2 of None \<Rightarrow> None
                             | Some tr \<Rightarrow> Some (tr\<lparr>IsPlaying := False\<rparr>)),
                          msg_err = e2\<rparr>, Some c2, w2))
                 else (\<lparr>msg_track = t, msg_err = e\<rparr>, Some c1, w1))))"

definition Update :: "model \<Rightarrow> msg \<Rightarrow> model \<times> cmd" where
  "Update m ms =
     (case ms of
        WindowSizeMsg wd ht \<Rightarrow> (m\<lparr>m_width := wd, m_height := ht\<rparr>, NoCmd)
      | TrackMsg tm \<Rightarrow>
          (if msg_err tm = None \<and> msg_track tm \<noteq> None
           then (m\<lparr>currentTrack := msg_track tm\<rparr>, NoCmd) else (m, NoCmd))
      | TickMsg t \<Rightarrow> (m, FetchTrack)
      | KeyMsg k \<Rightarrow>
          (if k = ''ctrl+c'' \<or> k = ''q'' \<or> k = ''enter'' then (m, Quit) else (m, NoCmd)))"


section \<open>Vocabulary of the properties\<close>

text \<open>
  What a call of \<^verbatim>\<open>RenderFromURL\<close> meets in the world: \<open>cache_fresh\<close> says that the lookup
  is a hit (an entry exists and is younger than the TTL at the next reading of the clock),
  \<open>download\<close> is the outcome of \<^verbatim>\<open>http.Get\<close> followed by \<^verbatim>\<open>image.Decode\<close> at the next
  exchange of the network.
\<close>

definition cache_fresh :: "cache \<Rightarrow> world \<Rightarrow> string \<Rightarrow> bool" where
  "cache_fresh c w url =
     (case map_of c url of None \<Rightarrow> False
      | Some entry \<Rightarrow> clock w (ticks w) - timestamp entry < cacheTTL)"

definition download :: "world \<Rightarrow> string \<Rightarrow> error + image" where
  "download w url =
     (case network w (length (sent w)) \<lparr>Method = ''GET'', URL = url, Header = [], Payload = []\<rparr> of
        Inl e \<Rightarrow> Inl e
      | Inr resp \<Rightarrow> imageDecode w (Body resp))"



subsection \<open>Sample worlds\<close>

definition blank :: image where
  "blank = (\<lambda>x y. \<lparr>red = 0, green = 0, blue = 0, alpha = 0\<rparr>)"

definition quiet_world :: world where
  "quiet_world =
     \<lparr>clock = (\<lambda>n. 0), ticks = 0,
      network = (\<lambda>n req. Inl ''dial tcp: no route to host''), sent = [],
      imageDecode = (\<lambda>b. Inl ''image: unknown format''),
      catmullRomScale = (\<lambda>img cols rows. img),
      jsonToken = (\<lambda>b. Inl ''unexpected end of JSON input''),
      jsonCurrentlyPlaying = (\<lambda>b. Inl ''unexpected end of JSON input''),
      jsonRecentlyPlayed = (\<lambda>b. Inl ''unexpected end of JSON input''),
      base64 = (\<lambda>s. s), formEncode = (\<lambda>kvs. [])\<rparr>"

definition server_error_world :: world where
  "server_error_world =
     quiet_world\<lparr>network := (\<lambda>n req. Inr \<lparr>StatusCode = 500, Body = ''Internal Server Error''\<rparr>)\<rparr>"

text \<open>
  A world in which every download yields a decodable image and the clock advances by one
  second per reading; ten renders of distinct URLs from the empty cache fill the cache.
\<close>

definition artwork_world :: world where
  "artwork_world =
     quiet_world\<lparr>clock := (\<lambda>n. int n * second),
                 network := (\<lambda>n req. Inr \<lparr>StatusCode = 200, Body = ''PNG''\<rparr>),
                 imageDecode := (\<lambda>b. Inr blank)\<rparr>"





subsection \<open>The frame the output contract describes\<close>

text \<open>
  \<open>top8\<close> is the top 8 bits of a 16-bit sample; \<open>frame_cell\<close> is the cell of the contract,
  \<^verbatim>\<open>ESC[38;2;Rt;Gt;Btm ESC[48;2;Rb;Gb;Bbm\<close> and the half block, without spaces;
  \<open>frame_row R cols y\<close> is cell row \<open>y\<close> of the raster \<open>R\<close>: the cells of the columns
  \<open>0, ..., cols - 1\<close>, made of the pixels \<open>(x, 2y)\<close> and \<open>(x, 2y + 1)\<close>, and the reset sequence.
\<close>

definition top8 :: "16 word \<Rightarrow> nat" where
  "top8 c = unat c div 256"

definition frame_cell :: "pixel \<Rightarrow> pixel \<Rightarrow> string" where
  "frame_cell tp bt =
     ESC # ''[38;2;'' @ fmt_nat (top8 (red tp)) @ '';'' @ fmt_nat (top8 (green tp)) @ '';'' @
       fmt_nat (top8 (blue tp)) @ ''m'' @
     ESC # ''[48;2;'' @ fmt_nat (top8 (red bt)) @ '';'' @ fmt_nat (top8 (green bt)) @ '';'' @
       fmt_nat (top8 (blue bt)) @ ''m'' @
     half_block"

definition frame_row :: "image \<Rightarrow> int \<Rightarrow> int \<Rightarrow> string" where
  "frame_row R cols y =
     concat (map (\<lambda>x. frame_cell (R x (2 * y)) (R x (2 * y + 1))) [0..cols - 1]) @ reset"




subsection \<open>What the Spotify client meets in the world\<close>

text \<open>
  \<open>token_reply\<close> is the outcome of the exchange with the token endpoint at the next
  exchange of the network, \<open>refresh_reply\<close> what \<^verbatim>\<open>refreshAccessToken\<close> makes of it (an
  error for a network error, a status other than 200 or a body that does not decode);
  \<open>token_valid\<close> is the test of \<^verbatim>\<open>ensureValidToken\<close> at the next reading of the clock, and
  \<open>after_check\<close> the world after that test; \<open>api_reply\<close> is the outcome of a GET on one of
  the two track endpoints.
\<close>

definition token_reply :: "Client \<Rightarrow> world \<Rightarrow> error + response" where
  "token_reply c w =
     (case tokenRequest c w of Inl e \<Rightarrow> Inl e
      | Inr req \<Rightarrow> network w (length (sent w)) req)"

definition refresh_reply :: "Client \<Rightarrow> world \<Rightarrow> error + tokenResponse" where
  "refresh_reply c w =
     (case token_reply c w of
        Inl e \<Rightarrow> Inl e
      | Inr resp \<Rightarrow>
          if StatusCode resp \<noteq> 200
          then Inl (''failed to refresh token: '' @ fmt_d (StatusCode resp))
          else jsonToken w (Body resp))"

definition token_valid :: "Client \<Rightarrow> world \<Rightarrow> bool" where
  "token_valid c w \<longleftrightarrow> accessToken c \<noteq> [] \<and> clock w (ticks w) < tokenExpiry c"

definition after_check :: "Client \<Rightarrow> world \<Rightarrow> world" where
  "after_check c w = (if accessToken c \<noteq> [] then w\<lparr>ticks := Suc (ticks w)\<rparr> else w)"

definition api_reply :: "string \<Rightarrow> Client \<Rightarrow> world \<Rightarrow> error + response" where
  "api_reply url c w =
     (case apiRequest url c of Inl e \<Rightarrow> Inl e
      | Inr req \<Rightarrow> network w (length (sent w)) req)"

text \<open>The field mapping of the specification: first artist or empty, first image or empty.\<close>

definition track_of :: "trackItem \<Rightarrow> bool \<Rightarrow> Track" where
  "track_of item playing =
     \<lparr>Name = item_name item,
      Artist = (case artists item of [] \<Rightarrow> [] | a # _ \<Rightarrow> a),
      Album = album_name item,
      ArtworkURL = (case album_images item of [] \<Rightarrow> [] | u # _ \<Rightarrow> u),
      IsPlaying = playing\<rparr>"

subsection \<open>Sample runs of the Spotify client and the session\<close>

text \<open>
  A client, a token of 90 seconds, the item of the fallback scenario, and a world
  \<open>api_world current decoded\<close> whose clock advances by 29 seconds per reading, whose token
  endpoint answers 200, whose currently-playing endpoint answers \<open>current\<close> (decoded as
  \<open>decoded\<close>) and whose recently-played endpoint answers 200 with that one item.
\<close>

definition demo_client :: Client where
  "demo_client = NewClient ''client-id'' ''client-secret'' ''refresh-token''"

definition fade_item :: trackItem where
  "fade_item = \<lparr>item_name = ''Fade'', album_name = ''13'',
                 album_images = [''http://img/1''], artists = [''Blur'']\<rparr>"

definition demo_token :: tokenResponse where
  "demo_token = \<lparr>AccessToken = ''BQDtoken'', TokenType = ''Bearer'', ExpiresIn = 90\<rparr>"

definition api_world :: "(error + response) \<Rightarrow> (error + currentlyPlayingResponse) \<Rightarrow> world" where
  "api_world current decoded =
     quiet_world
       \<lparr>clock := (\<lambda>n. int n * (29 * second)),
        network := (\<lambda>n req.
          if URL req = ''https://accounts.spotify.com/api/token''
          then Inr \<lparr>StatusCode = 200, Body = ''{token}''\<rparr>
          else if URL req = currentlyPlayingURL then current
          else if URL req = recentlyPlayedURL then Inr \<lparr>StatusCode = 200, Body = ''{items}''\<rparr>
          else Inl ''no such host''),
        jsonToken := (\<lambda>b. Inr demo_token),
        jsonCurrentlyPlaying := (\<lambda>b. decoded),
        jsonRecentlyPlayed := (\<lambda>b. Inr \<lparr>Items = [\<lparr>hi_Track = fade_item\<rparr>]\<rparr>)\<rparr>"

definition nothing_playing_world :: world where
  "nothing_playing_world = api_world (Inr \<lparr>StatusCode = 204, Body = []\<rparr>) (Inl ''EOF'')"

definition playing_world :: world where
  "playing_world =
     api_world (Inr \<lparr>StatusCode = 200, Body = ''{item}''\<rparr>)
       (Inr \<lparr>cp_IsPlaying = True, cp_Item = Some fade_item\<rparr>)"

definition idle_world :: world where
  "idle_world =
     api_world (Inr \<lparr>StatusCode = 200, Body = ''{}''\<rparr>)
       (Inr \<lparr>cp_IsPlaying = False, cp_Item = None\<rparr>)"

definition limited_world :: world where
  "limited_world = api_world (Inr \<lparr>StatusCode = 429, Body = ''slow down''\<rparr>) (Inl ''EOF'')"

text \<open>Two successive checks of the token, 29 seconds apart.\<close>

definition first_check :: "error option \<times> Client \<times> world" where
  "first_check = ensureValidToken (demo_client, nothing_playing_world)"





text \<open>A server that answers every request with status 500 and a body that is an image.\<close>

definition error_image_world :: world where
  "error_image_world =
     artwork_world\<lparr>network := (\<lambda>n req. Inr \<lparr>StatusCode = 500, Body = ''PNG''\<rparr>)\<rparr>"

section \<open>The placeholder frame\<close>

lemma renderPlaceholder_x_eq:
  "renderPlaceholder_x cols x sb = sb @ concat (replicate (nat (cols - x)) gray)"
proof (induction cols x sb rule: renderPlaceholder_x.induct)
  case (1 cols x sb)
  show ?case
  proof (cases "x < cols")
    case True
    then have "nat (cols - x) = Suc (nat (cols - (x + 1)))" by simp
    with True 1 show ?thesis
      by (subst renderPlaceholder_x.simps) simp
  next
    case False
    then show ?thesis by (subst renderPlaceholder_x.simps) simp
  qed
qed

lemma renderPlaceholder_y_eq:
  "renderPlaceholder_y cols rows y sb =
     sb @ concat (replicate (nat (rows - y)) (concat (replicate (nat cols) gray) @ reset @ [NL]))"
proof (induction cols rows y sb rule: renderPlaceholder_y.induct)
  case (1 cols rows y sb)
  show ?case
  proof (cases "y < rows")
    case True
    then have "nat (rows - y) = Suc (nat (rows - (y + 1)))" by simp
    with True 1 show ?thesis
      by (subst renderPlaceholder_y.simps) (simp add: renderPlaceholder_x_eq)
  next
    case False
    then show ?thesis by (subst renderPlaceholder_y.simps) simp
  qed
qed

lemma trim_newline_snoc: "trim_newline (xs @ [NL]) = xs"
  by (simp add: trim_newline_def)

lemma trim_newline_Nil: "trim_newline [] = []"
  by (simp add: trim_newline_def)

lemma concat_lines_join:
  "ls \<noteq> [] \<Longrightarrow> concat (map (\<lambda>l. l @ [NL]) ls) = join_lines ls @ [NL]"
  by (induction ls rule: join_lines.induct) simp_all

lemma trim_newline_lines: "trim_newline (concat (map (\<lambda>l. l @ [NL]) ls)) = join_lines ls"
proof (cases ls)
  case Nil
  then show ?thesis by (simp add: trim_newline_Nil)
next
  case (Cons l ls')
  then have "ls \<noteq> []" by simp
  then show ?thesis using concat_lines_join [of ls] by (simp add: trim_newline_snoc)
qed

lemma fmt_nat_60: "fmt_nat 60 = ''60''"
  by (simp add: fmt_nat.simps digit_def)

lemma fmt_nat_40: "fmt_nat 40 = ''40''"
  by (simp add: fmt_nat.simps digit_def)

lemma gray_sprintf: "gray = sprintf_cell 60 60 60 40 40 40"
  by (simp add: gray_def sprintf_cell_def fmt_nat_60 fmt_nat_40)

lemma renderPlaceholder_eq:
  "renderPlaceholder cols rows =
     join_lines (replicate (nat rows) (concat (replicate (nat cols) gray) @ reset))"
proof -
  have "renderPlaceholder_y cols rows 0 [] =
        concat (map (\<lambda>l. l @ [NL]) (replicate (nat rows) (concat (replicate (nat cols) gray) @ reset)))"
    by (simp add: renderPlaceholder_y_eq)
  then show ?thesis
    by (simp only: renderPlaceholder_def trim_newline_lines)
qed

lemma renderImage_y_done: "pixelHeight \<le> y \<Longrightarrow> renderImage_y resized cols pixelHeight y sb = sb"
  by (subst renderImage_y.simps) simp

text \<open>
  C8. For every \<open>cols\<close> and \<open>rows\<close>, \<^verbatim>\<open>RenderFromURL("", cols, rows)\<close> returns no error and
  the placeholder frame: \<open>rows\<close> lines joined by newlines, each made of \<open>cols\<close> cells with
  foreground \<open>rgb(60,60,60)\<close>, background \<open>rgb(40,40,40)\<close> and the half block, followed by the
  reset sequence. The frame depends on \<open>cols\<close> and \<open>rows\<close> only, and the cache and the world
  are handed back as they were: the list \<open>sent\<close> of HTTP requests has not grown, so no
  download was attempted.
\<close>

theorem RenderFromURL_empty_url:
  "RenderFromURL [] cols rows (c, w) =
     ((join_lines (replicate (nat rows)
         (concat (replicate (nat cols) (sprintf_cell 60 60 60 40 40 40)) @ reset)), None), c, w)"
  by (simp add: RenderFromURL_def renderPlaceholder_eq gray_sprintf)

theorem RenderFromURL_empty_url_witness:
  "RenderFromURL [] 2 1 ([], server_error_world) =
     ((sprintf_cell 60 60 60 40 40 40 @ sprintf_cell 60 60 60 40 40 40 @ reset, None),
      [], server_error_world) \<and>
   sent (snd (snd (RenderFromURL [] 2 1 ([], server_error_world)))) = []"
  using RenderFromURL_empty_url [of 2 1 "[]" server_error_world]
  by (simp add: numeral_2_eq_2 server_error_world_def quiet_world_def)



section \<open>Failure of the download\<close>


lemma download_tick: "download (snd (timeNow w)) url = download w url"
  by (simp add: download_def timeNow_def split: sum.splits)




section \<open>The cache\<close>

subsection \<open>The scan for the oldest entry\<close>



subsection \<open>Eviction and insertion\<close>







subsection \<open>What a call does to the cache\<close>



lemma RenderFromURL_miss_success:
  "download w url = Inr img \<Longrightarrow>
   fst (snd (RenderFromURL_miss url cols rows (c, w))) =
     cacheStore url (renderImage w img cols rows) (clock w (ticks w)) c \<and>
   fst (RenderFromURL_miss url cols rows (c, w)) = (renderImage w img cols rows, None)"
  by (auto simp: RenderFromURL_miss_def download_def httpGet_def httpDo_def timeNow_def
      renderImage_def resizeImage_def Let_def split: sum.splits)

lemma renderImage_tick: "renderImage (snd (timeNow w)) img cols rows = renderImage w img cols rows"
  by (simp add: renderImage_def resizeImage_def timeNow_def)

lemma RenderFromURL_success:
  assumes "url \<noteq> []" and "\<not> cache_fresh c w url" and "download w url = Inr img"
  shows "\<exists>now. fst (snd (RenderFromURL url cols rows (c, w))) =
                 cacheStore url (renderImage w img cols rows) now c \<and>
               fst (RenderFromURL url cols rows (c, w)) = (renderImage w img cols rows, None)"
proof (cases "map_of c url")
  case None
  with assms(1) RenderFromURL_miss_success [OF assms(3), of cols rows c] show ?thesis
    by (auto simp: RenderFromURL_def)
next
  case (Some entry)
  from assms(3) have "download (snd (timeNow w)) url = Inr img"
    by (simp add: download_tick)
  from RenderFromURL_miss_success [OF this, of cols rows c] Some assms(1,2) show ?thesis
    by (auto simp: RenderFromURL_def cache_fresh_def renderImage_tick Let_def split: prod.splits)
      (auto simp: timeNow_def)
qed

subsection \<open>The invariant\<close>




subsection \<open>Ten renders, then an eleventh\<close>





section \<open>The rendered frame\<close>

subsection \<open>The two loops\<close>

lemma shr8_top8: "shr8 c = top8 c"
proof -
  have "unat c < 2 ^ 16" using unsigned_less [of c, where ?'a = nat] by simp
  then have "unat c < 2 ^ 32" by simp
  then have tb: "take_bit 32 (unat c) = unat c" by (simp add: take_bit_nat_eq_self)
  have "shr8 c = drop_bit 8 (unat (ucast c :: 32 word))"
    by (simp only: shr8_def unat_drop_bit_eq)
  also have "unat (ucast c :: 32 word) = unat c"
    using tb by (simp add: unsigned_ucast_eq)
  finally show ?thesis by (simp add: top8_def drop_bit_eq_div)
qed



lemma renderImage_x_step:
  "x < cols \<Longrightarrow> y + 1 < pixelHeight \<Longrightarrow>
   renderImage_x R cols pixelHeight y x sb =
   renderImage_x R cols pixelHeight y (x + 1) (sb @ frame_cell (R x y) (R x (y + 1)))"
  by (subst renderImage_x.simps) (simp add: Let_def shr8_top8 frame_cell_def sprintf_cell_def)

lemma renderImage_x_done: "cols \<le> x \<Longrightarrow> renderImage_x R cols pixelHeight y x sb = sb"
  by (subst renderImage_x.simps) simp

lemma renderImage_x_eq:
  assumes "y + 1 < pixelHeight"
  shows "renderImage_x R cols pixelHeight y x sb =
         sb @ concat (map (\<lambda>i. frame_cell (R i y) (R i (y + 1))) [x..cols - 1])"
proof (induction "nat (cols - x)" arbitrary: x sb)
  case 0
  then have "cols \<le> x" by simp
  then show ?case by (simp add: renderImage_x_done)
next
  case (Suc n)
  then have lt: "x < cols" and n: "n = nat (cols - (x + 1))" by simp_all
  from lt have up: "[x..cols - 1] = x # [x + 1..cols - 1]" by (simp add: upto_rec1)
  show ?case
    by (simp add: renderImage_x_step [OF lt assms] Suc.hyps(1) [OF n] up)
qed

lemma renderImage_y_step:
  "y < pixelHeight \<Longrightarrow>
   renderImage_y R cols pixelHeight y sb =
   renderImage_y R cols pixelHeight (y + 2)
     (renderImage_x R cols pixelHeight y 0 sb @ reset @ [NL])"
  by (subst renderImage_y.simps) simp

lemma renderImage_y_eq:
  "0 \<le> k \<Longrightarrow>
   renderImage_y R cols (2 * rows) (2 * k) sb =
   sb @ concat (map (\<lambda>j. frame_row R cols (k + int j) @ [NL]) [0..<nat (rows - k)])"
proof (induction "nat (rows - k)" arbitrary: k sb)
  case 0
  then have "2 * rows \<le> 2 * k" by simp
  then show ?case using 0 by (simp add: renderImage_y_done)
next
  case (Suc n)
  then have lt: "k < rows" and n: "n = nat (rows - (k + 1))" and k1: "0 \<le> k + 1" by simp_all
  from lt have y: "2 * k < 2 * rows" and y1: "2 * k + 1 < 2 * rows" by simp_all
  have two: "2 * k + 2 = 2 * (k + 1)" by simp
  from Suc.hyps(2) n have idx: "[0..<nat (rows - k)] = 0 # map Suc [0..<nat (rows - (k + 1))]"
    by (simp add: upt_conv_Cons map_Suc_upt del: upt_Suc)
  have row: "renderImage_x R cols (2 * rows) (2 * k) 0 sb @ reset @ [NL] =
             sb @ frame_row R cols k @ [NL]"
    by (simp add: renderImage_x_eq [OF y1] frame_row_def)
  have shift: "(\<lambda>j. frame_row R cols (k + int (Suc j)) @ [NL]) =
               (\<lambda>j. frame_row R cols (k + 1 + int j) @ [NL])"
    by (rule ext) (simp add: add.assoc)
  have "renderImage_y R cols (2 * rows) (2 * k) sb =
        renderImage_y R cols (2 * rows) (2 * (k + 1)) (sb @ frame_row R cols k @ [NL])"
    by (simp only: renderImage_y_step [OF y] two row)
  also have "\<dots> = (sb @ frame_row R cols k @ [NL]) @
      concat (map (\<lambda>j. frame_row R cols (k + 1 + int j) @ [NL]) [0..<nat (rows - (k + 1))])"
    by (rule Suc.hyps(1) [OF n k1])
  also have "\<dots> = sb @ concat (map (\<lambda>j. frame_row R cols (k + int j) @ [NL]) [0..<nat (rows - k)])"
    by (simp only: idx list.map map_map comp_def shift concat.simps append_assoc) simp
  finally show ?case .
qed

lemma renderImage_eq:
  "renderImage w img cols rows =
     join_lines (map (\<lambda>j. frame_row (resizeImage w img cols (rows * 2)) cols (int j)) [0..<nat rows])"
proof -
  have "renderImage_y (resizeImage w img cols (rows * 2)) cols (2 * rows) (2 * 0) [] =
        concat (map (\<lambda>l. l @ [NL])
          (map (\<lambda>j. frame_row (resizeImage w img cols (rows * 2)) cols (int j)) [0..<nat rows]))"
    by (subst renderImage_y_eq) (simp_all add: comp_def)
  then show ?thesis
    by (simp add: renderImage_def Let_def mult.commute trim_newline_lines del: map_map)
qed

subsection \<open>Lines, resets and half blocks\<close>





















subsection \<open>The output contract\<close>








lemma render_blank_cell:
  "renderImage artwork_world blank 1 1 =
     ESC # ''[38;2;0;0;0m'' @ ESC # ''[48;2;0;0;0m'' @ half_block @ reset"
proof -
  have "renderImage artwork_world blank 1 1 = frame_row blank 1 0"
    by (simp add: renderImage_eq resizeImage_def artwork_world_def quiet_world_def)
  also have "\<dots> = frame_cell (blank 0 0) (blank 0 1) @ reset"
    by (simp add: frame_row_def)
  finally show ?thesis
    by (simp add: frame_cell_def top8_def blank_def fmt_nat.simps digit_def)
qed



subsection \<open>A remark on status codes\<close>

text \<open>
  The failure that C7 speaks of is an error of \<^verbatim>\<open>http.Get\<close> or of \<^verbatim>\<open>image.Decode\<close>. The
  status code is not looked at: a response with status 500 leads to the placeholder
  because its body does not decode (the witness of C7); were the body of such a response
  an image, it would be rendered and stored like any other.
\<close>

lemma status_code_not_inspected:
  "fst (RenderFromURL ''u0'' 1 1 ([], error_image_world)) =
     (ESC # ''[38;2;0;0;0m'' @ ESC # ''[48;2;0;0;0m'' @ half_block @ reset, None) \<and>
   map fst (fst (snd (RenderFromURL ''u0'' 1 1 ([], error_image_world)))) = [''u0'']"
proof -
  have miss: "\<not> cache_fresh [] error_image_world ''u0''" by (simp add: cache_fresh_def)
  have dl: "download error_image_world ''u0'' = Inr blank"
    by (simp add: download_def error_image_world_def artwork_world_def quiet_world_def)
  have same: "renderImage error_image_world blank 1 1 = renderImage artwork_world blank 1 1"
    by (simp add: renderImage_def resizeImage_def error_image_world_def)
  from RenderFromURL_success [OF _ miss dl, of 1 1] show ?thesis
    by (auto simp: same render_blank_cell cacheStore_def evict_if_full_def cacheSize_def)
qed

section \<open>The token\<close>

lemma refreshAccessToken_failure:
  "refresh_reply c w = Inl e \<Longrightarrow>
   fst (refreshAccessToken (c, w)) = Some e \<and> fst (snd (refreshAccessToken (c, w))) = c"
  by (auto simp: refresh_reply_def token_reply_def refreshAccessToken_def httpDo_def
      split: sum.splits if_splits)

lemma refreshAccessToken_success:
  "refresh_reply c w = Inr tr \<Longrightarrow>
   refreshAccessToken (c, w) =
     (None,
      c\<lparr>accessToken := AccessToken tr,
        tokenExpiry := clock w (ticks w) + (ExpiresIn tr - 60) * second\<rparr>,
      w\<lparr>sent := sent w @ [projr (tokenRequest c w)], ticks := Suc (ticks w)\<rparr>)"
  by (auto simp: refresh_reply_def token_reply_def refreshAccessToken_def httpDo_def timeNow_def
      split: sum.splits if_splits)

text \<open>
  C4. Whenever \<^verbatim>\<open>refreshAccessToken\<close> returns an error, the client (bearer and expiry
  included) is the one before the call, and the client changes only when no error is
  returned. Each of the three failures returns an error and leaves the client as it was:
  a network error, a status other than 200 from the token endpoint (the error names the
  status), and a 200 response whose body does not decode.
\<close>

theorem refreshAccessToken_failure_keeps_state:
  "(fst (refreshAccessToken (c, w)) \<noteq> None \<longrightarrow> fst (snd (refreshAccessToken (c, w))) = c) \<and>
   (fst (snd (refreshAccessToken (c, w))) \<noteq> c \<longrightarrow> fst (refreshAccessToken (c, w)) = None) \<and>
   (token_reply c w = Inl e \<longrightarrow>
      fst (refreshAccessToken (c, w)) = Some e \<and> fst (snd (refreshAccessToken (c, w))) = c) \<and>
   (token_reply c w = Inr resp \<and> StatusCode resp \<noteq> 200 \<longrightarrow>
      fst (refreshAccessToken (c, w)) =
        Some (''failed to refresh token: '' @ fmt_d (StatusCode resp)) \<and>
      fst (snd (refreshAccessToken (c, w))) = c) \<and>
   (token_reply c w = Inr resp \<and> StatusCode resp = 200 \<and> jsonToken w (Body resp) = Inl e \<longrightarrow>
      fst (refreshAccessToken (c, w)) = Some e \<and> fst (snd (refreshAccessToken (c, w))) = c)"
proof -
  have unchanged: "fst (snd (refreshAccessToken (c, w))) = c"
    if "fst (refreshAccessToken (c, w)) \<noteq> None"
  proof (cases "refresh_reply c w")
    case (Inl e')
    then show ?thesis by (simp add: refreshAccessToken_failure)
  next
    case (Inr tr)
    with that show ?thesis by (simp add: refreshAccessToken_success)
  qed
  have a: "fst (refreshAccessToken (c, w)) = Some e \<and> fst (snd (refreshAccessToken (c, w))) = c"
    if "token_reply c w = Inl e"
    using that by (intro refreshAccessToken_failure) (simp add: refresh_reply_def)
  have b: "fst (refreshAccessToken (c, w)) =
        Some (''failed to refresh token: '' @ fmt_d (StatusCode resp)) \<and>
      fst (snd (refreshAccessToken (c, w))) = c"
    if "token_reply c w = Inr resp" and "StatusCode resp \<noteq> 200"
    using that by (intro refreshAccessToken_failure) (simp add: refresh_reply_def)
  have d: "fst (refreshAccessToken (c, w)) = Some e \<and> fst (snd (refreshAccessToken (c, w))) = c"
    if "token_reply c w = Inr resp" and "StatusCode resp = 200" and "jsonToken w (Body resp) = Inl e"
    using that by (intro refreshAccessToken_failure) (simp add: refresh_reply_def)
  from unchanged a b d show ?thesis by blast
qed

lemma ensureValidToken_valid:
  "token_valid c w \<Longrightarrow> ensureValidToken (c, w) = (None, c, w\<lparr>ticks := Suc (ticks w)\<rparr>)"
  by (simp add: ensureValidToken_def token_valid_def timeNow_def)

lemma ensureValidToken_refresh:
  "\<not> token_valid c w \<Longrightarrow> ensureValidToken (c, w) = refreshAccessToken (c, after_check c w)"
  by (auto simp: ensureValidToken_def token_valid_def timeNow_def after_check_def)


section \<open>The track endpoints and the fetch policy\<close>

lemma makeTrack_eq: "makeTrack item playing = track_of item playing"
  by (cases "artists item"; cases "album_images item") (simp_all add: makeTrack_def track_of_def)

lemma GetCurrentlyPlaying_token_error:
  "ensureValidToken (c, w) = (Some e, c1, w1) \<Longrightarrow>
   GetCurrentlyPlaying (c, w) = ((None, Some (''failed to get valid token: '' @ e)), c1, w1)"
  by (simp add: GetCurrentlyPlaying_def)

lemma GetCurrentlyPlaying_reply:
  assumes "ensureValidToken (c, w) = (None, c1, w1)"
  shows "GetCurrentlyPlaying (c, w) =
     ((case api_reply currentlyPlayingURL c1 w1 of
         Inl e \<Rightarrow> (None, Some e)
       | Inr resp \<Rightarrow>
           if StatusCode resp = 204 then (None, None)
           else if StatusCode resp \<noteq> 200
           then (None, Some (''spotify API error: '' @ fmt_d (StatusCode resp)))
           else (case jsonCurrentlyPlaying w1 (Body resp) of
                   Inl e \<Rightarrow> (None, Some e)
                 | Inr data \<Rightarrow>
                     (case cp_Item data of None \<Rightarrow> (None, None)
                      | Some item \<Rightarrow> (Some (track_of item (cp_IsPlaying data)), None)))),
      c1, w1\<lparr>sent := sent w1 @ [projr (apiRequest currentlyPlayingURL c1)]\<rparr>)"
  using assms
  by (auto simp: GetCurrentlyPlaying_def api_reply_def httpDo_def makeTrack_eq apiRequest_def
      NewRequest_def split: sum.splits option.splits)

lemma GetRecentlyPlayed_reply:
  assumes "ensureValidToken (c, w) = (None, c1, w1)"
  shows "GetRecentlyPlayed (c, w) =
     ((case api_reply recentlyPlayedURL c1 w1 of
         Inl e \<Rightarrow> (None, Some e)
       | Inr resp \<Rightarrow>
           if StatusCode resp \<noteq> 200
           then (None, Some (''spotify API error: '' @ fmt_d (StatusCode resp)))
           else (case jsonRecentlyPlayed w1 (Body resp) of
                   Inl e \<Rightarrow> (None, Some e)
                 | Inr data \<Rightarrow>
                     (case Items data of [] \<Rightarrow> (None, None)
                      | it # _ \<Rightarrow> (Some (track_of (hi_Track it) False), None)))),
      c1, w1\<lparr>sent := sent w1 @ [projr (apiRequest recentlyPlayedURL c1)]\<rparr>)"
  using assms
  by (auto simp: GetRecentlyPlayed_def api_reply_def httpDo_def makeTrack_eq apiRequest_def
      NewRequest_def split: sum.splits option.splits list.splits)

text \<open>
  C5. Let the token be in order and let the currently-playing endpoint answer with a
  response. On status 204 \<^verbatim>\<open>GetCurrentlyPlaying\<close> returns no track and no error, whatever
  the body and the decoder are; on 200 with a decoded body without item it returns no track
  and no error; on 200 with an item it returns the track with the item's name, its first
  artist or the empty string, the album name, the first image URL or the empty string, and
  the \<^verbatim>\<open>is_playing\<close> of the response; on every other status it returns no track and the
  error \<^verbatim>\<open>spotify API error: STATUS\<close>, which contains the status in decimal.
\<close>

theorem GetCurrentlyPlaying_by_status:
  assumes "ensureValidToken (c, w) = (None, c1, w1)"
    and "api_reply currentlyPlayingURL c1 w1 = Inr resp"
  shows "(StatusCode resp = 204 \<longrightarrow> fst (GetCurrentlyPlaying (c, w)) = (None, None)) \<and>
         (StatusCode resp = 200 \<and> jsonCurrentlyPlaying w1 (Body resp) = Inr data \<and>
            cp_Item data = None \<longrightarrow> fst (GetCurrentlyPlaying (c, w)) = (None, None)) \<and>
         (StatusCode resp = 200 \<and> jsonCurrentlyPlaying w1 (Body resp) = Inr data \<and>
            cp_Item data = Some item \<longrightarrow>
            fst (GetCurrentlyPlaying (c, w)) =
              (Some \<lparr>Name = item_name item,
                     Artist = (case artists item of [] \<Rightarrow> [] | a # _ \<Rightarrow> a),
                     Album = album_name item,
                     ArtworkURL = (case album_images item of [] \<Rightarrow> [] | u # _ \<Rightarrow> u),
                     IsPlaying = cp_IsPlaying data\<rparr>, None)) \<and>
         (StatusCode resp \<noteq> 204 \<and> StatusCode resp \<noteq> 200 \<longrightarrow>
            fst (GetCurrentlyPlaying (c, w)) =
              (None, Some (''spotify API error: '' @ fmt_d (StatusCode resp))) \<and>
            sublist (fmt_d (StatusCode resp)) (''spotify API error: '' @ fmt_d (StatusCode resp)))"
proof -
  have sub: "sublist s (p @ s)" for p s :: string
    unfolding sublist_def by (intro exI [of _ p] exI [of _ "[]"]) simp
  show ?thesis
    using sub [of "fmt_d (StatusCode resp)" "''spotify API error: ''"]
    by (simp add: GetCurrentlyPlaying_reply [OF assms(1)] assms(2) track_of_def)
qed

lemma fetchTrack_cases:
  "fetchTrack (Some c, w) =
     (case GetCurrentlyPlaying (c, w) of
        ((t, e), c1, w1) \<Rightarrow>
          if e \<noteq> None then (\<lparr>msg_track = None, msg_err = e\<rparr>, Some c1, w1)
          else if t \<noteq> None then (\<lparr>msg_track = t, msg_err = None\<rparr>, Some c1, w1)
          else (case GetRecentlyPlayed (c1, w1) of
                  ((t2, e2), c2, w2) \<Rightarrow>
                    (\<lparr>msg_track = map_option (\<lambda>tr. tr\<lparr>IsPlaying := False\<rparr>) t2, msg_err = e2\<rparr>,
                     Some c2, w2)))"
  by (auto simp: fetchTrack_def split: prod.splits option.splits)

text \<open>
  C6, as amended. Every tick makes the session issue \<^verbatim>\<open>fetchTrack\<close>. With a configured client,
  \<^verbatim>\<open>fetchTrack\<close> calls \<^verbatim>\<open>GetCurrentlyPlaying\<close>; exactly when that returns no track and no
  error it goes on to \<^verbatim>\<open>GetRecentlyPlayed\<close>, in the state the first call left, and reports
  its result with \<^verbatim>\<open>IsPlaying\<close> set to false; otherwise it reports the result of the first
  call and makes no second call. So when currently-playing answers 204 and recently-played
  answers 200 with one item, the message carries the track of that item (name, first
  artist, album, first image URL) with \<^verbatim>\<open>IsPlaying\<close> false and no error, and \<^verbatim>\<open>Update\<close>
  makes it the session's current track.
\<close>

theorem fetchTrack_fallback:
  "(fst (GetCurrentlyPlaying (c, w)) = (None, None) \<longrightarrow>
      fetchTrack (Some c, w) =
        (\<lparr>msg_track = map_option (\<lambda>tr. tr\<lparr>IsPlaying := False\<rparr>)
                        (fst (fst (GetRecentlyPlayed (snd (GetCurrentlyPlaying (c, w)))))),
          msg_err = snd (fst (GetRecentlyPlayed (snd (GetCurrentlyPlaying (c, w)))))\<rparr>,
         Some (fst (snd (GetRecentlyPlayed (snd (GetCurrentlyPlaying (c, w)))))),
         snd (snd (GetRecentlyPlayed (snd (GetCurrentlyPlaying (c, w))))))) \<and>
   (fst (GetCurrentlyPlaying (c, w)) \<noteq> (None, None) \<longrightarrow>
      fetchTrack (Some c, w) =
        (\<lparr>msg_track = (if snd (fst (GetCurrentlyPlaying (c, w))) = None
                        then fst (fst (GetCurrentlyPlaying (c, w))) else None),
          msg_err = snd (fst (GetCurrentlyPlaying (c, w)))\<rparr>,
         Some (fst (snd (GetCurrentlyPlaying (c, w)))),
         snd (snd (GetCurrentlyPlaying (c, w))))) \<and>
   (ensureValidToken (c, w) = (None, c1, w1) \<and>
    api_reply currentlyPlayingURL c1 w1 = Inr resp \<and> StatusCode resp = 204 \<and>
    ensureValidToken (snd (GetCurrentlyPlaying (c, w))) = (None, c2, w2) \<and>
    api_reply recentlyPlayedURL c2 w2 = Inr resp2 \<and> StatusCode resp2 = 200 \<and>
    jsonRecentlyPlayed w2 (Body resp2) = Inr data \<and> Items data = [it] \<longrightarrow>
      fst (fetchTrack (Some c, w)) =
        \<lparr>msg_track = Some \<lparr>Name = item_name (hi_Track it),
                            Artist = (case artists (hi_Track it) of [] \<Rightarrow> [] | a # _ \<Rightarrow> a),
                            Album = album_name (hi_Track it),
                            ArtworkURL = (case album_images (hi_Track it) of [] \<Rightarrow> [] | u # _ \<Rightarrow> u),
                            IsPlaying = False\<rparr>,
          msg_err = None\<rparr> \<and>
      currentTrack (fst (Update m (TrackMsg (fst (fetchTrack (Some c, w)))))) =
        msg_track (fst (fetchTrack (Some c, w)))) \<and>
   Update m (TickMsg t) = (m, FetchTrack)"
proof -
  have a: "fst (GetCurrentlyPlaying (c, w)) = (None, None) \<Longrightarrow>
      fetchTrack (Some c, w) =
        (\<lparr>msg_track = map_option (\<lambda>tr. tr\<lparr>IsPlaying := False\<rparr>)
                        (fst (fst (GetRecentlyPlayed (snd (GetCurrentlyPlaying (c, w)))))),
          msg_err = snd (fst (GetRecentlyPlayed (snd (GetCurrentlyPlaying (c, w)))))\<rparr>,
         Some (fst (snd (GetRecentlyPlayed (snd (GetCurrentlyPlaying (c, w)))))),
         snd (snd (GetRecentlyPlayed (snd (GetCurrentlyPlaying (c, w))))))"
    by (auto simp: fetchTrack_cases split: prod.splits)
  have b: "fst (GetCurrentlyPlaying (c, w)) \<noteq> (None, None) \<Longrightarrow>
      fetchTrack (Some c, w) =
        (\<lparr>msg_track = (if snd (fst (GetCurrentlyPlaying (c, w))) = None
                        then fst (fst (GetCurrentlyPlaying (c, w))) else None),
          msg_err = snd (fst (GetCurrentlyPlaying (c, w)))\<rparr>,
         Some (fst (snd (GetCurrentlyPlaying (c, w)))),
         snd (snd (GetCurrentlyPlaying (c, w))))"
    by (auto simp: fetchTrack_cases split: prod.splits)
  have s: "fst (fetchTrack (Some c, w)) =
        \<lparr>msg_track = Some (track_of (hi_Track it) False), msg_err = None\<rparr>"
    if t1: "ensureValidToken (c, w) = (None, c1, w1)"
      and r1: "api_reply currentlyPlayingURL c1 w1 = Inr resp" and s1: "StatusCode resp = 204"
      and t2: "ensureValidToken (snd (GetCurrentlyPlaying (c, w))) = (None, c2, w2)"
      and r2: "api_reply recentlyPlayedURL c2 w2 = Inr resp2" and s2: "StatusCode resp2 = 200"
      and j: "jsonRecentlyPlayed w2 (Body resp2) = Inr data" and i: "Items data = [it]"
  proof -
    have g1: "GetCurrentlyPlaying (c, w) =
        ((None, None), c1, w1\<lparr>sent := sent w1 @ [projr (apiRequest currentlyPlayingURL c1)]\<rparr>)"
      by (simp add: GetCurrentlyPlaying_reply [OF t1] r1 s1)
    from t2 g1 have t2': "ensureValidToken
        (c1, w1\<lparr>sent := sent w1 @ [projr (apiRequest currentlyPlayingURL c1)]\<rparr>) = (None, c2, w2)"
      by simp
    have g2: "fst (GetRecentlyPlayed (c1, w1\<lparr>sent := sent w1 @ [projr (apiRequest currentlyPlayingURL c1)]\<rparr>)) =
        (Some (track_of (hi_Track it) False), None)"
      by (simp add: GetRecentlyPlayed_reply [OF t2'] r2 s2 j i)
    from g1 have "fst (GetCurrentlyPlaying (c, w)) = (None, None)" by simp
    from a [OF this] g1 g2 show ?thesis by (simp add: track_of_def)
  qed
  have u: "currentTrack (fst (Update m (TrackMsg tm))) = msg_track tm"
    if "msg_err tm = None" and "msg_track tm \<noteq> None" for tm
    using that by (simp add: Update_def)
  have tick: "Update m (TickMsg t) = (m, FetchTrack)" by (simp add: Update_def)
  from a b s u tick show ?thesis
    by (simp add: track_of_def)
qed

section \<open>Sample runs\<close>

subsection \<open>Two checks of the token\<close>

lemma demo_refresh_reply: "refresh_reply demo_client (api_world r d) = Inr demo_token"
  by (simp add: refresh_reply_def token_reply_def tokenRequest_def NewRequest_def setHeader_def
      api_world_def quiet_world_def Let_def)

lemma demo_not_valid: "\<not> token_valid demo_client w"
  by (simp add: token_valid_def demo_client_def NewClient_def)

lemma demo_after_check: "after_check demo_client w = w"
  by (simp add: after_check_def demo_client_def NewClient_def)

lemma demo_first:
  "ensureValidToken (demo_client, api_world r d) =
     (None,
      demo_client\<lparr>accessToken := ''BQDtoken'', tokenExpiry := 30 * second\<rparr>,
      (api_world r d)\<lparr>sent := [projr (tokenRequest demo_client (api_world r d))], ticks := 1\<rparr>)"
proof -
  have "clock (api_world r d) (ticks (api_world r d)) = 0" "sent (api_world r d) = []"
    "ticks (api_world r d) = 0"
    by (simp_all add: api_world_def quiet_world_def)
  then show ?thesis
    by (simp add: ensureValidToken_refresh [OF demo_not_valid] demo_after_check
        refreshAccessToken_success [OF demo_refresh_reply] demo_token_def)
qed

lemma first_check_eq:
  "first_check =
     (None,
      demo_client\<lparr>accessToken := ''BQDtoken'', tokenExpiry := 30 * second\<rparr>,
      nothing_playing_world\<lparr>sent := [projr (tokenRequest demo_client nothing_playing_world)],
        ticks := 1\<rparr>)"
  unfolding first_check_def nothing_playing_world_def by (rule demo_first)

lemma second_valid: "token_valid (fst (snd first_check)) (snd (snd first_check))"
  unfolding first_check_eq
  by (simp add: token_valid_def nothing_playing_world_def api_world_def quiet_world_def second_def)




theorem refreshAccessToken_failure_keeps_state_witness:
  "token_reply demo_client quiet_world = Inl ''dial tcp: no route to host'' \<and>
   fst (refreshAccessToken (demo_client, quiet_world)) = Some ''dial tcp: no route to host'' \<and>
   fst (snd (refreshAccessToken (demo_client, quiet_world))) = demo_client \<and>
   token_reply demo_client server_error_world =
     Inr \<lparr>StatusCode = 500, Body = ''Internal Server Error''\<rparr> \<and>
   fst (refreshAccessToken (demo_client, server_error_world)) =
     Some ''failed to refresh token: 500'' \<and>
   fst (snd (refreshAccessToken (demo_client, server_error_world))) = demo_client \<and>
   token_reply demo_client artwork_world = Inr \<lparr>StatusCode = 200, Body = ''PNG''\<rparr> \<and>
   jsonToken artwork_world ''PNG'' = Inl ''unexpected end of JSON input'' \<and>
   fst (refreshAccessToken (demo_client, artwork_world)) = Some ''unexpected end of JSON input'' \<and>
   fst (snd (refreshAccessToken (demo_client, artwork_world))) = demo_client"
proof -
  have a: "token_reply demo_client quiet_world = Inl ''dial tcp: no route to host''"
    by (simp add: token_reply_def tokenRequest_def NewRequest_def quiet_world_def Let_def)
  have b: "token_reply demo_client server_error_world =
     Inr \<lparr>StatusCode = 500, Body = ''Internal Server Error''\<rparr>"
    by (simp add: token_reply_def tokenRequest_def NewRequest_def server_error_world_def
        quiet_world_def Let_def)
  have d: "token_reply demo_client artwork_world = Inr \<lparr>StatusCode = 200, Body = ''PNG''\<rparr>"
    by (simp add: token_reply_def tokenRequest_def NewRequest_def artwork_world_def
        quiet_world_def Let_def)
  have j: "jsonToken artwork_world ''PNG'' = Inl ''unexpected end of JSON input''"
    by (simp add: artwork_world_def quiet_world_def)
  have f: "fmt_d 500 = ''500''" by (simp add: fmt_d_def fmt_nat.simps digit_def)
  from refreshAccessToken_failure_keeps_state [of demo_client quiet_world "''dial tcp: no route to host''"]
    refreshAccessToken_failure_keeps_state [of demo_client server_error_world _ "\<lparr>StatusCode = 500, Body = ''Internal Server Error''\<rparr>"]
    refreshAccessToken_failure_keeps_state [of demo_client artwork_world "''unexpected end of JSON input''"
      "\<lparr>StatusCode = 200, Body = ''PNG''\<rparr>"]
    a b d j f
  show ?thesis by simp
qed

subsection \<open>The endpoints and the session\<close>

lemma api_world_network:
  "network (api_world r d) n req =
     (if URL req = ''https://accounts.spotify.com/api/token''
      then Inr \<lparr>StatusCode = 200, Body = ''{token}''\<rparr>
      else if URL req = currentlyPlayingURL then r
      else if URL req = recentlyPlayedURL then Inr \<lparr>StatusCode = 200, Body = ''{items}''\<rparr>
      else Inl ''no such host'')"
  by (simp add: api_world_def quiet_world_def)

lemma api_world_decoders:
  "jsonCurrentlyPlaying (api_world r d) b = d"
  "jsonRecentlyPlayed (api_world r d) b = Inr \<lparr>Items = [\<lparr>hi_Track = fade_item\<rparr>]\<rparr>"
  by (simp_all add: api_world_def quiet_world_def)

lemma api_world_current:
  "network w = network (api_world r d) \<Longrightarrow> api_reply currentlyPlayingURL c w = r"
  by (simp add: api_reply_def apiRequest_def NewRequest_def setHeader_def api_world_network
      currentlyPlayingURL_def)

lemma api_world_recent:
  "network w = network (api_world r d) \<Longrightarrow>
   api_reply recentlyPlayedURL c w = Inr \<lparr>StatusCode = 200, Body = ''{items}''\<rparr>"
  by (simp add: api_reply_def apiRequest_def NewRequest_def setHeader_def api_world_network
      currentlyPlayingURL_def recentlyPlayedURL_def)

lemma demo_api_reply:
  "api_reply currentlyPlayingURL
     (demo_client\<lparr>accessToken := ''BQDtoken'', tokenExpiry := 30 * second\<rparr>)
     ((api_world r d)\<lparr>sent := [projr (tokenRequest demo_client (api_world r d))], ticks := 1\<rparr>) = r"
  by (rule api_world_current) simp

theorem GetCurrentlyPlaying_by_status_witness:
  "fst (GetCurrentlyPlaying (demo_client, nothing_playing_world)) = (None, None) \<and>
   jsonCurrentlyPlaying nothing_playing_world [] = Inl ''EOF'' \<and>
   fst (GetCurrentlyPlaying (demo_client, idle_world)) = (None, None) \<and>
   fst (GetCurrentlyPlaying (demo_client, playing_world)) =
     (Some \<lparr>Name = ''Fade'', Artist = ''Blur'', Album = ''13'', ArtworkURL = ''http://img/1'',
            IsPlaying = True\<rparr>, None) \<and>
   fst (GetCurrentlyPlaying (demo_client, limited_world)) = (None, Some ''spotify API error: 429'') \<and>
   sublist ''429'' ''spotify API error: 429''"
proof -
  have f: "fmt_d 429 = ''429''" by (simp add: fmt_d_def fmt_nat.simps digit_def)
  have j: "jsonCurrentlyPlaying nothing_playing_world [] = Inl ''EOF''"
    by (simp add: nothing_playing_world_def api_world_decoders)
  from GetCurrentlyPlaying_by_status [OF demo_first demo_api_reply,
      of "\<lparr>StatusCode = 204, Body = []\<rparr>" "Inl ''EOF''"]
    GetCurrentlyPlaying_by_status [OF demo_first demo_api_reply,
      of "\<lparr>StatusCode = 200, Body = ''{}''\<rparr>" "Inr \<lparr>cp_IsPlaying = False, cp_Item = None\<rparr>"
        "\<lparr>cp_IsPlaying = False, cp_Item = None\<rparr>"]
    GetCurrentlyPlaying_by_status [OF demo_first demo_api_reply,
      of "\<lparr>StatusCode = 200, Body = ''{item}''\<rparr>"
        "Inr \<lparr>cp_IsPlaying = True, cp_Item = Some fade_item\<rparr>"
        "\<lparr>cp_IsPlaying = True, cp_Item = Some fade_item\<rparr>" fade_item]
    GetCurrentlyPlaying_by_status [OF demo_first demo_api_reply,
      of "\<lparr>StatusCode = 429, Body = ''slow down''\<rparr>" "Inl ''EOF''"]
    f j
  show ?thesis
    by (simp add: api_world_decoders nothing_playing_world_def idle_world_def playing_world_def
        limited_world_def fade_item_def)
qed

lemma first_check_network: "network (snd (snd first_check)) = network nothing_playing_world"
  by (simp add: first_check_eq)

lemma nothing_playing_current:
  "GetCurrentlyPlaying (demo_client, nothing_playing_world) =
     ((None, None), fst (snd first_check),
      (snd (snd first_check))\<lparr>sent := sent (snd (snd first_check)) @
         [projr (apiRequest currentlyPlayingURL (fst (snd first_check)))]\<rparr>)"
proof -
  have e: "ensureValidToken (demo_client, nothing_playing_world) =
      (None, fst (snd first_check), snd (snd first_check))"
    by (simp add: first_check_def [symmetric] first_check_eq)
  have "api_reply currentlyPlayingURL (fst (snd first_check)) (snd (snd first_check)) =
      Inr \<lparr>StatusCode = 204, Body = []\<rparr>"
    by (rule api_world_current) (simp add: first_check_network nothing_playing_world_def)
  then show ?thesis by (simp add: GetCurrentlyPlaying_reply [OF e])
qed

lemma nothing_playing_recent:
  "fst (GetRecentlyPlayed (snd (GetCurrentlyPlaying (demo_client, nothing_playing_world)))) =
     (Some \<lparr>Name = ''Fade'', Artist = ''Blur'', Album = ''13'', ArtworkURL = ''http://img/1'',
            IsPlaying = False\<rparr>, None)"
proof -
  let ?c = "fst (snd first_check)"
  let ?w = "(snd (snd first_check))\<lparr>sent := sent (snd (snd first_check)) @
         [projr (apiRequest currentlyPlayingURL (fst (snd first_check)))]\<rparr>"
  have v: "token_valid ?c ?w"
    using second_valid by (simp add: token_valid_def)
  have r: "api_reply recentlyPlayedURL ?c (?w\<lparr>ticks := Suc (ticks ?w)\<rparr>) =
      Inr \<lparr>StatusCode = 200, Body = ''{items}''\<rparr>"
    by (rule api_world_recent) (simp add: first_check_network nothing_playing_world_def)
  have j: "jsonRecentlyPlayed (?w\<lparr>ticks := Suc (ticks ?w)\<rparr>) b = Inr \<lparr>Items = [\<lparr>hi_Track = fade_item\<rparr>]\<rparr>"
    for b
    by (simp add: first_check_eq nothing_playing_world_def api_world_decoders)
  have g: "fst (GetRecentlyPlayed (?c, ?w)) =
      (Some (track_of fade_item False), None)"
    by (simp only: GetRecentlyPlayed_reply [OF ensureValidToken_valid [OF v]] r j fst_conv)
      simp
  then show ?thesis
    by (simp add: nothing_playing_current track_of_def fade_item_def)
qed

lemma apiRequest_URL: "URL (projr (apiRequest url c)) = url"
  by (simp add: apiRequest_def NewRequest_def setHeader_def)

lemma tokenRequest_URL: "URL (projr (tokenRequest c w)) = ''https://accounts.spotify.com/api/token''"
  by (simp add: tokenRequest_def NewRequest_def setHeader_def Let_def)

lemma nothing_playing_requests:
  "map URL (sent (snd (snd (fetchTrack (Some demo_client, nothing_playing_world))))) =
     [''https://accounts.spotify.com/api/token'', currentlyPlayingURL, recentlyPlayedURL]"
proof -
  let ?c = "fst (snd first_check)"
  let ?w = "(snd (snd first_check))\<lparr>sent := sent (snd (snd first_check)) @
         [projr (apiRequest currentlyPlayingURL (fst (snd first_check)))]\<rparr>"
  have v: "token_valid ?c ?w"
    using second_valid by (simp add: token_valid_def)
  have s2: "sent (snd (snd (GetRecentlyPlayed (?c, ?w)))) =
      sent ?w @ [projr (apiRequest recentlyPlayedURL ?c)]"
    by (simp add: GetRecentlyPlayed_reply [OF ensureValidToken_valid [OF v]])
  have f: "snd (snd (fetchTrack (Some demo_client, nothing_playing_world))) =
      snd (snd (GetRecentlyPlayed (?c, ?w)))"
    by (simp add: fetchTrack_cases nothing_playing_current split: prod.splits)
  have s0: "sent (snd (snd first_check)) = [projr (tokenRequest demo_client nothing_playing_world)]"
    by (simp add: first_check_eq)
  have s1: "map URL (sent ?w) = [''https://accounts.spotify.com/api/token'', currentlyPlayingURL]"
    by (simp add: s0 apiRequest_URL tokenRequest_URL)
  show ?thesis
    by (simp only: f s2 map_append s1 list.map apiRequest_URL) simp
qed

theorem fetchTrack_fallback_witness:
  "api_reply currentlyPlayingURL (fst (snd first_check)) (snd (snd first_check)) =
     Inr \<lparr>StatusCode = 204, Body = []\<rparr> \<and>
   fst (GetCurrentlyPlaying (demo_client, nothing_playing_world)) = (None, None) \<and>
   fst (fetchTrack (Some demo_client, nothing_playing_world)) =
     \<lparr>msg_track = Some \<lparr>Name = ''Fade'', Artist = ''Blur'', Album = ''13'',
                         ArtworkURL = ''http://img/1'', IsPlaying = False\<rparr>,
       msg_err = None\<rparr> \<and>
   map URL (sent (snd (snd (fetchTrack (Some demo_client, nothing_playing_world))))) =
     [''https://accounts.spotify.com/api/token'', currentlyPlayingURL, recentlyPlayedURL] \<and>
   currentTrack (fst (Update \<lparr>m_width = 80, m_height = 24, currentTrack = None\<rparr>
       (TrackMsg (fst (fetchTrack (Some demo_client, nothing_playing_world)))))) =
     Some \<lparr>Name = ''Fade'', Artist = ''Blur'', Album = ''13'',
           ArtworkURL = ''http://img/1'', IsPlaying = False\<rparr> \<and>
   fst (GetCurrentlyPlaying (demo_client, playing_world)) \<noteq> (None, None) \<and>
   fst (fetchTrack (Some demo_client, playing_world)) =
     \<lparr>msg_track = Some \<lparr>Name = ''Fade'', Artist = ''Blur'', Album = ''13'',
                         ArtworkURL = ''http://img/1'', IsPlaying = True\<rparr>,
       msg_err = None\<rparr> \<and>
   length (sent (snd (snd (fetchTrack (Some demo_client, playing_world))))) = 2 \<and>
   fst (fetchTrack (Some demo_client, limited_world)) =
     \<lparr>msg_track = None, msg_err = Some ''spotify API error: 429''\<rparr> \<and>
   Update \<lparr>m_width = 80, m_height = 24, currentTrack = None\<rparr> (TickMsg 0) =
     (\<lparr>m_width = 80, m_height = 24, currentTrack = None\<rparr>, FetchTrack)"
proof -
  let ?c = "fst (snd first_check)"
  let ?w = "(snd (snd first_check))\<lparr>sent := sent (snd (snd first_check)) @
         [projr (apiRequest currentlyPlayingURL (fst (snd first_check)))]\<rparr>"
  let ?m = "\<lparr>m_width = 80, m_height = 24, currentTrack = None\<rparr>"
  have f: "fmt_d 429 = ''429''" by (simp add: fmt_d_def fmt_nat.simps digit_def)
  have e1: "ensureValidToken (demo_client, nothing_playing_world) =
      (None, fst (snd first_check), snd (snd first_check))"
    by (simp add: first_check_def [symmetric] first_check_eq)
  have r1: "api_reply currentlyPlayingURL (fst (snd first_check)) (snd (snd first_check)) =
      Inr \<lparr>StatusCode = 204, Body = []\<rparr>"
    by (rule api_world_current) (simp add: first_check_network nothing_playing_world_def)
  have v: "token_valid ?c ?w"
    using second_valid by (simp add: token_valid_def)
  have e2: "ensureValidToken (snd (GetCurrentlyPlaying (demo_client, nothing_playing_world))) =
      (None, ?c, ?w\<lparr>ticks := Suc (ticks ?w)\<rparr>)"
    using ensureValidToken_valid [OF v] by (simp add: nothing_playing_current)
  have r2: "api_reply recentlyPlayedURL ?c (?w\<lparr>ticks := Suc (ticks ?w)\<rparr>) =
      Inr \<lparr>StatusCode = 200, Body = ''{items}''\<rparr>"
    by (rule api_world_recent) (simp add: first_check_network nothing_playing_world_def)
  have j: "jsonRecentlyPlayed (?w\<lparr>ticks := Suc (ticks ?w)\<rparr>) ''{items}'' =
      Inr \<lparr>Items = [\<lparr>hi_Track = fade_item\<rparr>]\<rparr>"
    by (simp add: first_check_eq nothing_playing_world_def api_world_decoders)
  have p: "GetCurrentlyPlaying (demo_client, playing_world) =
     ((Some \<lparr>Name = ''Fade'', Artist = ''Blur'', Album = ''13'', ArtworkURL = ''http://img/1'',
            IsPlaying = True\<rparr>, None),
      demo_client\<lparr>accessToken := ''BQDtoken'', tokenExpiry := 30 * second\<rparr>,
      playing_world\<lparr>sent := [projr (tokenRequest demo_client playing_world),
         projr (apiRequest currentlyPlayingURL
           (demo_client\<lparr>accessToken := ''BQDtoken'', tokenExpiry := 30 * second\<rparr>))],
         ticks := 1\<rparr>)"
    unfolding playing_world_def
    by (simp add: GetCurrentlyPlaying_reply [OF demo_first] api_world_decoders
        api_reply_def apiRequest_def NewRequest_def setHeader_def api_world_network
        currentlyPlayingURL_def track_of_def fade_item_def)
  have l: "fst (GetCurrentlyPlaying (demo_client, limited_world)) =
      (None, Some ''spotify API error: 429'')"
    unfolding limited_world_def
    by (simp add: GetCurrentlyPlaying_reply [OF demo_first]
        api_reply_def apiRequest_def NewRequest_def setHeader_def api_world_network
        currentlyPlayingURL_def f)
  note scenario = fetchTrack_fallback [of demo_client nothing_playing_world
      "fst (snd first_check)" "snd (snd first_check)" "\<lparr>StatusCode = 204, Body = []\<rparr>"
      ?c "?w\<lparr>ticks := Suc (ticks ?w)\<rparr>" "\<lparr>StatusCode = 200, Body = ''{items}''\<rparr>"
      "\<lparr>Items = [\<lparr>hi_Track = fade_item\<rparr>]\<rparr>" "\<lparr>hi_Track = fade_item\<rparr>" ?m 0,
      THEN conjunct2, THEN conjunct2]
  have hyps: "ensureValidToken (demo_client, nothing_playing_world) =
        (None, fst (snd first_check), snd (snd first_check)) \<and>
      api_reply currentlyPlayingURL (fst (snd first_check)) (snd (snd first_check)) =
        Inr \<lparr>StatusCode = 204, Body = []\<rparr> \<and>
      StatusCode \<lparr>StatusCode = 204, Body = []\<rparr> = 204 \<and>
      ensureValidToken (snd (GetCurrentlyPlaying (demo_client, nothing_playing_world))) =
        (None, ?c, ?w\<lparr>ticks := Suc (ticks ?w)\<rparr>) \<and>
      api_reply recentlyPlayedURL ?c (?w\<lparr>ticks := Suc (ticks ?w)\<rparr>) =
        Inr \<lparr>StatusCode = 200, Body = ''{items}''\<rparr> \<and>
      StatusCode \<lparr>StatusCode = 200, Body = ''{items}''\<rparr> = 200 \<and>
      jsonRecentlyPlayed (?w\<lparr>ticks := Suc (ticks ?w)\<rparr>)
        (Body \<lparr>StatusCode = 200, Body = ''{items}''\<rparr>) = Inr \<lparr>Items = [\<lparr>hi_Track = fade_item\<rparr>]\<rparr> \<and>
      Items \<lparr>Items = [\<lparr>hi_Track = fade_item\<rparr>]\<rparr> = [\<lparr>hi_Track = fade_item\<rparr>]"
    using e1 r1 e2 r2 j by (intro conjI; (assumption | simp))
  note both = scenario [THEN conjunct1, THEN mp, OF hyps]
  from both [THEN conjunct1]
  have fade: "fst (fetchTrack (Some demo_client, nothing_playing_world)) =
     \<lparr>msg_track = Some \<lparr>Name = ''Fade'', Artist = ''Blur'', Album = ''13'',
                         ArtworkURL = ''http://img/1'', IsPlaying = False\<rparr>,
       msg_err = None\<rparr>"
    by (simp add: fade_item_def)
  note upd = both [THEN conjunct2]
  from scenario [THEN conjunct2]
  have tick: "Update ?m (TickMsg 0) = (?m, FetchTrack)" .
  from fetchTrack_fallback [of demo_client playing_world]
    fetchTrack_fallback [of demo_client limited_world]
    nothing_playing_current nothing_playing_requests p l r1 fade upd tick
  show ?thesis by simp
qed

text \<open>
  C6 as stated fails for a session without credentials: the global client is \<^verbatim>\<open>nil\<close>, and
  \<^verbatim>\<open>fetchTrack\<close> returns an empty message at once. No request is sent, although the world
  would have answered.
\<close>

theorem fetchTrack_without_client:
  "fetchTrack (None, nothing_playing_world) =
     (\<lparr>msg_track = None, msg_err = None\<rparr>, None, nothing_playing_world) \<and>
   sent (snd (snd (fetchTrack (None, nothing_playing_world)))) = []"
  by (simp add: fetchTrack_def nothing_playing_world_def api_world_def quiet_world_def)

section \<open>The displayed track name\<close>





end
